theory Spec2Isabelle
  imports
    Complex_Main
    "HOL-Library.Char_ord"
    "HOL-Library.List_Lexorder"
    "HOL-Library.Product_Lexorder"
    "HOL-Library.Multiset"
begin

section \<open>Expense tracker backend (backend.py)\<close>

text \<open>
  A shallow embedding of \<^verbatim>\<open>backend.py\<close>: the amount parser \<^verbatim>\<open>_parse_amount\<close>, the
  conversion \<^verbatim>\<open>_row_to_expense\<close>, the key derivation \<^verbatim>\<open>_get_idempotency_key\<close> and the
  two request handlers \<^verbatim>\<open>create_expense\<close> and \<^verbatim>\<open>get_expenses\<close>.

  Python text is modelled as \<^typ>\<open>string\<close>, one \<^typ>\<open>char\<close> per code point, which
  covers the code points below 256. A leading underscore of a Python name is dropped,
  since an Isabelle name cannot start with one.
\<close>

subsection \<open>Python values and exceptions\<close>

text \<open>
  The values \<^verbatim>\<open>request.get_json\<close> can return. A float is carried as the text that
  \<^verbatim>\<open>str()\<close> prints for it (\<^verbatim>\<open>99.99\<close>, \<^verbatim>\<open>1e+16\<close>, \<^verbatim>\<open>inf\<close>, \<^verbatim>\<open>nan\<close>): the
  program reads a float of the request only through \<^verbatim>\<open>str()\<close> and through its truth
  value. A dict is the list of its items.
\<close>

datatype pyval =
    PNone
  | PBool bool
  | PInt int
  | PFloat string
  | PStr string
  | PList "pyval list"
  | PDict "(string \<times> pyval) list"

datatype exn =
    InvalidOperation
  | ValueError
  | TypeError
  | OverflowError
  | DecimalOverflow
  | AttributeError
  | IntegrityError

subsection \<open>Text helpers: \<^verbatim>\<open>str.strip\<close>, digits, \<^verbatim>\<open>str(int)\<close>\<close>

definition isspace :: "char \<Rightarrow> bool" where
  \<comment> \<open>the white space \<^verbatim>\<open>str.strip()\<close> removes, among the code points below 256\<close>
  "isspace c = (c \<in> set [CHR 0x09, CHR 0x0A, CHR 0x0B, CHR 0x0C, CHR 0x0D,
                          CHR 0x1C, CHR 0x1D, CHR 0x1E, CHR 0x1F, CHR 0x20,
                          CHR 0x85, CHR 0xA0])"

definition strip :: "string \<Rightarrow> string" where
  "strip s = rev (dropWhile isspace (rev (dropWhile isspace s)))"

definition isdigit :: "char \<Rightarrow> bool" where
  "isdigit c = (c \<in> set ''0123456789'')"

definition digit_val :: "char \<Rightarrow> nat" where
  "digit_val c = of_char c - 48"

definition nat_of_digits :: "string \<Rightarrow> nat" where
  "nat_of_digits ds = foldl (\<lambda>n c. 10 * n + digit_val c) 0 ds"

definition tolower :: "char \<Rightarrow> char" where
  "tolower c =
     (case map_of (zip ''ABCDEFGHIJKLMNOPQRSTUVWXYZ'' ''abcdefghijklmnopqrstuvwxyz'') c of
        None \<Rightarrow> c
      | Some l \<Rightarrow> l)"

fun ndigits :: "nat \<Rightarrow> nat" where
  \<comment> \<open>the number of decimal digits of a coefficient, \<^verbatim>\<open>len(self._int)\<close>; 1 for zero\<close>
  "ndigits n = (if n < 10 then 1 else Suc (ndigits (n div 10)))"

declare ndigits.simps [simp del]

fun digits_of :: "nat \<Rightarrow> string" where
  "digits_of n =
     (if n < 10 then [''0123456789'' ! n]
      else digits_of (n div 10) @ [''0123456789'' ! (n mod 10)])"

declare digits_of.simps [simp del]

definition str_int :: "int \<Rightarrow> string" where
  \<comment> \<open>\<^verbatim>\<open>str(n)\<close> for an int\<close>
  "str_int n = (if n < 0 then CHR ''-'' # digits_of (nat (- n)) else digits_of (nat n))"

subsection \<open>The decimal module, as far as the parser uses it\<close>

text \<open>
  A \<^verbatim>\<open>Decimal\<close> is finite (sign, coefficient, exponent: the value is
  \<open>\<plusminus> coefficient * 10 ^ exponent\<close>), an infinity or a NaN (quiet or signalling; its
  sign and payload play no part here). The sign is \<^term>\<open>True\<close> for a negative number.
  Arithmetic runs in the default context: 28 digits of precision, \<^verbatim>\<open>ROUND_HALF_EVEN\<close>,
  \<^verbatim>\<open>Emax = 999999\<close>, \<^verbatim>\<open>Emin = -999999\<close>, traps on \<^verbatim>\<open>InvalidOperation\<close>,
  \<^verbatim>\<open>DivisionByZero\<close> and \<^verbatim>\<open>Overflow\<close>.
\<close>

datatype decimal =
    Finite bool nat int
  | Infinity bool
  | NaN bool

definition prec :: nat where "prec = 28"
definition Emax :: int where "Emax = 999999"
definition Etiny :: int where "Etiny = - 1000026"
definition Etop :: int where "Etop = 999972"

definition rhe_div :: "nat \<Rightarrow> nat \<Rightarrow> nat" where
  \<comment> \<open>\<open>c / d\<close> rounded to the nearest integer, a tie to the even one\<close>
  "rhe_div c d =
     (let q = c div d; r = c mod d
      in if 2 * r < d then q
         else if d < 2 * r then q + 1
         else if even q then q else q + 1)"

definition rescale :: "nat \<Rightarrow> int \<Rightarrow> int \<Rightarrow> nat" where
  \<comment> \<open>the coefficient of \<open>c * 10 ^ e\<close> brought to the exponent \<open>ex\<close>, rounded half to even
      when digits are lost (\<^verbatim>\<open>_rescale\<close>); a number with no digit left at \<open>ex\<close> or
      at the place below it rounds to zero\<close>
  "rescale c e ex =
     (if ex \<le> e then c * 10 ^ nat (e - ex)
      else if int (ndigits c) + e - ex < 0 then 0
      else rhe_div c (10 ^ nat (ex - e)))"

definition exponent_part :: "string \<Rightarrow> int option" where
  \<comment> \<open>\<^verbatim>\<open>(E[-+]?\d+)?\<close> up to the end of the text; \<^term>\<open>None\<close> when it does not match\<close>
  "exponent_part r =
     (case r of
        [] \<Rightarrow> Some 0
      | c # t \<Rightarrow>
          if tolower c \<noteq> CHR ''e'' then None
          else
            let (neg, ds) =
                  (case t of
                     [] \<Rightarrow> (False, t)
                   | x # u \<Rightarrow> if x = CHR ''-'' then (True, u)
                              else if x = CHR ''+'' then (False, u) else (False, t))
            in if ds \<noteq> [] \<and> list_all isdigit ds
               then Some (if neg then - int (nat_of_digits ds) else int (nat_of_digits ds))
               else None)"

definition exact_range :: "nat \<Rightarrow> int \<Rightarrow> bool" where
  \<comment> \<open>what the constructor of CPython's C implementation can hold exactly: an exponent
      of at least \<open>-1999999999999999997\<close> and an adjusted exponent of at most
      \<open>999999999999999999\<close>; it raises \<^verbatim>\<open>InvalidOperation\<close> beyond\<close>
  "exact_range c e =
     (- 1999999999999999997 \<le> e \<and> e + int (ndigits c) - 1 \<le> 999999999999999999)"

definition number_part :: "bool \<Rightarrow> string \<Rightarrow> decimal option" where
  \<comment> \<open>\<^verbatim>\<open>(?=\d|\.\d)\d*(\.\d*)?(E[-+]?\d+)?\<close>\<close>
  "number_part sg r =
     (let ip = takeWhile isdigit r;
          r1 = dropWhile isdigit r;
          (fp, r2) =
            (case r1 of
               [] \<Rightarrow> ([], r1)
             | c # t \<Rightarrow> if c = CHR ''.'' then (takeWhile isdigit t, dropWhile isdigit t)
                        else ([], r1))
      in if ip = [] \<and> fp = [] then None
         else
           (case exponent_part r2 of
              None \<Rightarrow> None
            | Some ex \<Rightarrow>
                let c = nat_of_digits (ip @ fp); e = ex - int (length fp)
                in if exact_range c e then Some (Finite sg c e) else None))"

definition nan_literal :: "string \<Rightarrow> bool option" where
  \<comment> \<open>\<^verbatim>\<open>s?NaN\d*\<close> on lower-cased text: whether it is a NaN, and a signalling one\<close>
  "nan_literal l =
     (let (sig, t) = (case l of [] \<Rightarrow> (False, l)
                      | c # u \<Rightarrow> if c = CHR ''s'' then (True, u) else (False, l))
      in if take 3 t = ''nan'' \<and> list_all isdigit (drop 3 t) then Some sig else None)"

definition Decimal :: "string \<Rightarrow> exn + decimal" where
  \<comment> \<open>\<^verbatim>\<open>Decimal(text)\<close>: white space around the text and every underscore are dropped,
      then the text is matched, letters in either case\<close>
  "Decimal v =
     (let s = filter (\<lambda>c. c \<noteq> CHR ''_'') (strip v);
          (sg, r) =
            (case s of
               [] \<Rightarrow> (False, s)
             | c # t \<Rightarrow> if c = CHR ''-'' then (True, t)
                        else if c = CHR ''+'' then (False, t) else (False, s));
          l = map tolower r
      in if l = ''inf'' \<or> l = ''infinity'' then Inr (Infinity sg)
         else
           (case nan_literal l of
              Some sig \<Rightarrow> Inr (NaN sig)
            | None \<Rightarrow>
                (case number_part sg r of
                   Some d \<Rightarrow> Inr d
                 | None \<Rightarrow> Inl InvalidOperation)))"

definition lt_zero :: "decimal \<Rightarrow> exn + bool" where
  \<comment> \<open>\<^verbatim>\<open>dec < 0\<close>: an ordering comparison with a NaN signals \<^verbatim>\<open>InvalidOperation\<close>\<close>
  "lt_zero d =
     (case d of
        NaN sig \<Rightarrow> Inl InvalidOperation
      | Infinity sg \<Rightarrow> Inr sg
      | Finite sg c e \<Rightarrow> Inr (sg \<and> c \<noteq> 0))"

definition quantize :: "decimal \<Rightarrow> exn + decimal" where
  \<comment> \<open>\<^verbatim>\<open>dec.quantize(Decimal('0.01'))\<close>\<close>
  "quantize d =
     (case d of
        NaN sig \<Rightarrow> if sig then Inl InvalidOperation else Inr (NaN False)
      | Infinity sg \<Rightarrow> Inl InvalidOperation
      | Finite sg c e \<Rightarrow>
          if c = 0 then Inr (Finite sg 0 (- 2))
          else
            let adj = e + int (ndigits c) - 1
            in if Emax < adj then Inl InvalidOperation
               else if int prec < adj - (- 2) + 1 then Inl InvalidOperation
               else
                 let c' = rescale c e (- 2)
                 in if Emax < - 2 + int (ndigits c') - 1 then Inl InvalidOperation
                    else if prec < ndigits c' then Inl InvalidOperation
                    else Inr (Finite sg c' (- 2)))"

definition fix_context :: "decimal \<Rightarrow> exn + decimal" where
  \<comment> \<open>the rounding of a result to the context (\<^verbatim>\<open>_fix\<close>)\<close>
  "fix_context d =
     (case d of
        NaN sig \<Rightarrow> Inr (NaN sig)
      | Infinity sg \<Rightarrow> Inr (Infinity sg)
      | Finite sg c e \<Rightarrow>
          if c = 0 then Inr (Finite sg 0 (min (max e Etiny) Emax))
          else
            let exp_min0 = int (ndigits c) + e - int prec
            in if Etop < exp_min0 then Inl DecimalOverflow
               else
                 let exp_min = max exp_min0 Etiny
                 in if e < exp_min then
                      let c' = rescale c e exp_min;
                          (c'', e'') = (if prec < ndigits c' then (c' div 10, exp_min + 1)
                                        else (c', exp_min))
                      in if Etop < e'' then Inl DecimalOverflow
                         else Inr (Finite sg c'' e'')
                    else Inr (Finite sg c e))"

definition times100 :: "decimal \<Rightarrow> exn + decimal" where
  \<comment> \<open>\<^verbatim>\<open>dec * 100\<close>\<close>
  "times100 d =
     (case d of
        NaN sig \<Rightarrow> if sig then Inl InvalidOperation else Inr (NaN False)
      | Infinity sg \<Rightarrow> Inr (Infinity sg)
      | Finite sg c e \<Rightarrow> fix_context (Finite sg (c * 100) e))"

definition int_of_decimal :: "decimal \<Rightarrow> exn + int" where
  \<comment> \<open>\<^verbatim>\<open>int(dec)\<close>: truncation towards zero\<close>
  "int_of_decimal d =
     (case d of
        NaN sig \<Rightarrow> Inl ValueError
      | Infinity sg \<Rightarrow> Inl OverflowError
      | Finite sg c e \<Rightarrow>
          let m = (if 0 \<le> e then int c * 10 ^ nat e else int (c div 10 ^ nat (- e)))
          in Inr (if sg then - m else m))"

subsection \<open>\<^verbatim>\<open>_parse_amount\<close>\<close>

fun amount_decimal :: "pyval \<Rightarrow> exn + decimal" where
  \<comment> \<open>\<^verbatim>\<open>Decimal(str(value))\<close> for an int or a float (a bool is an int),
      \<^verbatim>\<open>Decimal(str(value).strip())\<close> otherwise. The text of a list or of a dict starts
      with a bracket or a brace, which \<^verbatim>\<open>Decimal\<close> rejects.\<close>
  "amount_decimal (PBool b) = Decimal (if b then ''True'' else ''False'')"
| "amount_decimal (PInt n) = Decimal (str_int n)"
| "amount_decimal (PFloat r) = Decimal r"
| "amount_decimal (PStr s) = Decimal (strip s)"
| "amount_decimal PNone = Decimal (strip ''None'')"
| "amount_decimal (PList xs) = Inl InvalidOperation"
| "amount_decimal (PDict kvs) = Inl InvalidOperation"

definition parse_amount_try :: "pyval \<Rightarrow> exn + (int option \<times> string option)" where
  \<comment> \<open>the body of the \<^verbatim>\<open>try\<close>\<close>
  "parse_amount_try v =
     (case amount_decimal v of
        Inl x \<Rightarrow> Inl x
      | Inr dec \<Rightarrow>
          (case lt_zero dec of
             Inl x \<Rightarrow> Inl x
           | Inr neg \<Rightarrow>
               if neg then Inr (None, Some ''Amount must be non-negative'')
               else
                 (case quantize dec of
                    Inl x \<Rightarrow> Inl x
                  | Inr q \<Rightarrow>
                      (case times100 q of
                         Inl x \<Rightarrow> Inl x
                       | Inr m \<Rightarrow>
                           (case int_of_decimal m of
                              Inl x \<Rightarrow> Inl x
                            | Inr paise \<Rightarrow> Inr (Some paise, None))))))"

definition parse_amount :: "pyval \<Rightarrow> exn + (int option \<times> string option)" where
  \<comment> \<open>\<^term>\<open>Inl\<close> is an exception that leaves the function; the handler catches
      \<^verbatim>\<open>InvalidOperation\<close>, \<^verbatim>\<open>ValueError\<close> and \<^verbatim>\<open>TypeError\<close>\<close>
  "parse_amount v =
     (if v = PNone then Inr (None, Some ''Amount is required'')
      else
        (case parse_amount_try v of
           Inl x \<Rightarrow>
             if x = InvalidOperation \<or> x = ValueError \<or> x = TypeError
             then Inr (None, Some ''Amount must be a valid number'')
             else Inl x
         | Inr r \<Rightarrow> Inr r))"

subsection \<open>\<^verbatim>\<open>_row_to_expense\<close>\<close>

text \<open>
  \<^verbatim>\<open>row['amount_paise'] / 100\<close> is Python's true division of two ints: the quotient
  rounded to the nearest binary64 float, a tie to the even significand. A float is
  modelled by the rational number it denotes. The \<^verbatim>\<open>OverflowError\<close> of the division
  needs a quotient of \<open>2 ^ 1024\<close> or more, which no 64-bit column value reaches.
\<close>

fun bit_length :: "nat \<Rightarrow> nat" where
  "bit_length n = (if n = 0 then 0 else Suc (bit_length (n div 2)))"

declare bit_length.simps [simp del]

definition truediv :: "int \<Rightarrow> int \<Rightarrow> rat" where
  \<comment> \<open>\<open>a / b\<close> for ints with \<open>b \<noteq> 0\<close>: \<open>e\<close> is the exponent of the quotient
      (\<open>2 ^ e \<le> |a / b| < 2 ^ (e + 1)\<close>), \<open>u\<close> that of its last place\<close>
  "truediv a b =
     (if a = 0 then 0
      else
        let x = nat \<bar>a\<bar>; y = nat \<bar>b\<bar>;
            k = int (bit_length x) - int (bit_length y);
            e = (if (if 0 \<le> k then y * 2 ^ nat k \<le> x else y \<le> x * 2 ^ nat (- k))
                 then k else k - 1);
            u = max (e - 52) (- 1074);
            m = (if 0 \<le> u then rhe_div x (y * 2 ^ nat u) else rhe_div (x * 2 ^ nat (- u)) y)
        in (if (a < 0) \<noteq> (b < 0) then - 1 else 1) * of_nat m * 2 powi u)"

record expense_row =
  id_col :: nat
  amount_paise :: int
  category_col :: string
  description_col :: string
  date_col :: string
  created_at_col :: string

record expense =
  expense_id :: nat
  amount :: rat
  category :: string
  description :: string
  date :: string
  created_at :: string

definition row_to_expense :: "expense_row \<Rightarrow> expense" where
  "row_to_expense row =
     \<lparr>expense_id = id_col row,
      amount = truediv (amount_paise row) 100,
      category = category_col row,
      description = description_col row,
      date = date_col row,
      created_at = created_at_col row\<rparr>"

subsection \<open>Requests, the database, \<^verbatim>\<open>_get_idempotency_key\<close>\<close>

text \<open>
  Of a request the handlers read the \<^verbatim>\<open>Idempotency-Key\<close> header, the body as text
  (\<^verbatim>\<open>request.get_data(as_text=True)\<close>) and the body as decoded by
  \<^verbatim>\<open>request.get_json(force=True, silent=True)\<close>, which is \<^verbatim>\<open>None\<close> for an absent or
  unparseable body. The SHA-256 digest is a parameter \<open>sha256_hex\<close> of the model:
  \<^verbatim>\<open>hashlib.sha256(body.encode()).hexdigest()\<close>.

  The database holds the rows of \<^verbatim>\<open>expenses\<close> in the order of insertion and the table
  \<^verbatim>\<open>idempotency_keys\<close> as the list of its rows: key, expense id and time of creation.
  The key is the primary key of that table, so \<^verbatim>\<open>INSERT OR REPLACE\<close> deletes a row with
  the same key before it adds the new one.
\<close>

record request =
  idempotency_key_header :: "string option"
  body :: string
  json :: pyval

record store =
  expenses :: "expense_row list"
  idempotency_keys :: "(string \<times> nat \<times> string) list"

definition get_idempotency_key :: "(string \<Rightarrow> string) \<Rightarrow> request \<Rightarrow> string option" where
  "get_idempotency_key sha256_hex req =
     (let key = idempotency_key_header req
      in if key \<noteq> None \<and> key \<noteq> Some []
         then map_option strip key
         else if body req \<noteq> [] then Some (sha256_hex (body req)) else None)"

subsection \<open>Truth values, \<^verbatim>\<open>dict.get\<close>, \<^verbatim>\<open>datetime.strptime\<close>\<close>

fun truthy :: "pyval \<Rightarrow> bool" where
  "truthy PNone = False"
| "truthy (PBool b) = b"
| "truthy (PInt n) = (n \<noteq> 0)"
| "truthy (PFloat r) = (r \<noteq> ''0.0'' \<and> r \<noteq> ''-0.0'')"
| "truthy (PStr s) = (s \<noteq> [])"
| "truthy (PList xs) = (xs \<noteq> [])"
| "truthy (PDict kvs) = (kvs \<noteq> [])"

definition dict_get :: "(string \<times> pyval) list \<Rightarrow> string \<Rightarrow> pyval" where
  \<comment> \<open>\<^verbatim>\<open>data.get(k)\<close>: \<^verbatim>\<open>None\<close> for a missing key\<close>
  "dict_get kvs k = (case map_of kvs k of None \<Rightarrow> PNone | Some v \<Rightarrow> v)"

definition text_field :: "pyval \<Rightarrow> exn + string" where
  \<comment> \<open>\<^verbatim>\<open>(x or '').strip()\<close>: only a \<^verbatim>\<open>str\<close> has the method \<^verbatim>\<open>strip\<close>\<close>
  "text_field x =
     (if truthy x then (case x of PStr t \<Rightarrow> Inr (strip t) | _ \<Rightarrow> Inl AttributeError)
      else Inr (strip []))"

definition is_leap :: "nat \<Rightarrow> bool" where
  "is_leap y = (y mod 4 = 0 \<and> (y mod 100 \<noteq> 0 \<or> y mod 400 = 0))"

definition days_in_month :: "nat \<Rightarrow> nat \<Rightarrow> nat" where
  "days_in_month y m =
     (if m = 2 then (if is_leap y then 29 else 28)
      else if m = 4 \<or> m = 6 \<or> m = 9 \<or> m = 11 then 30 else 31)"

definition match_month :: "string \<Rightarrow> (nat \<times> string) option" where
  \<comment> \<open>\<^verbatim>\<open>(1[0-2]|0[1-9]|[1-9])\<close>, the alternatives in order. Where one of the first two
      matches, a digit stands second, so the third alternative could not be followed by
      the hyphen: the first match is the only one the whole pattern can use.\<close>
  "match_month t =
     (case t of
        [] \<Rightarrow> None
      | a # r \<Rightarrow>
          (case r of
             [] \<Rightarrow> if a \<in> set ''123456789'' then Some (digit_val a, r) else None
           | b # r' \<Rightarrow>
               if a = CHR ''1'' \<and> b \<in> set ''012'' then Some (10 + digit_val b, r')
               else if a = CHR ''0'' \<and> b \<in> set ''123456789'' then Some (digit_val b, r')
               else if a \<in> set ''123456789'' then Some (digit_val a, r)
               else None))"

definition match_day :: "string \<Rightarrow> (nat \<times> string) option" where
  \<comment> \<open>\<^verbatim>\<open>(3[0-1]|[1-2]\d|0[1-9]|[1-9]| [1-9])\<close> at the end of the pattern: the first
      alternative that matches\<close>
  "match_day t =
     (case t of
        [] \<Rightarrow> None
      | a # r \<Rightarrow>
          (case r of
             [] \<Rightarrow> if a \<in> set ''123456789'' then Some (digit_val a, r) else None
           | b # r' \<Rightarrow>
               if a = CHR ''3'' \<and> b \<in> set ''01'' then Some (30 + digit_val b, r')
               else if a \<in> set ''12'' \<and> isdigit b then Some (10 * digit_val a + digit_val b, r')
               else if a = CHR ''0'' \<and> b \<in> set ''123456789'' then Some (digit_val b, r')
               else if a \<in> set ''123456789'' then Some (digit_val a, r)
               else if a = CHR '' '' \<and> b \<in> set ''123456789'' then Some (digit_val b, r')
               else None))"

definition strptime :: "string \<Rightarrow> exn + nat \<times> nat \<times> nat" where
  \<comment> \<open>\<^verbatim>\<open>datetime.strptime(date, '%Y-%m-%d')\<close>: the text must match
      \<^verbatim>\<open>(\d\d\d\d)-(1[0-2]|0[1-9]|[1-9])-(3[0-1]|[1-2]\d|0[1-9]|[1-9]| [1-9])\<close> with nothing
      left over, and year, month and day must make a date from the year 1 on\<close>
  "strptime t =
     (if length t < 5 \<or> \<not> list_all isdigit (take 4 t) \<or> t ! 4 \<noteq> CHR ''-''
      then Inl ValueError
      else
        (case match_month (drop 5 t) of
           None \<Rightarrow> Inl ValueError
         | Some (m, r) \<Rightarrow>
             (case r of
                [] \<Rightarrow> Inl ValueError
              | h # r' \<Rightarrow>
                  if h \<noteq> CHR ''-'' then Inl ValueError
                  else
                    (case match_day r' of
                       None \<Rightarrow> Inl ValueError
                     | Some (d, rest) \<Rightarrow>
                         let y = nat_of_digits (take 4 t)
                         in if rest \<noteq> [] then Inl ValueError
                            else if y < 1 then Inl ValueError
                            else if days_in_month y m < d then Inl ValueError
                            else Inr (y, m, d)))))"

subsection \<open>\<^verbatim>\<open>create_expense\<close> and \<^verbatim>\<open>get_expenses\<close>\<close>

text \<open>
  A handler returns the JSON payload with the status, or lets an exception escape,
  which the server answers with status 500. The database is passed in and returned; the
  transaction of \<^verbatim>\<open>create_expense\<close> is rolled back by an exception. The time of the
  request, as formatted for \<^verbatim>\<open>created_at\<close>, is the parameter \<open>now\<close>.
\<close>

datatype payload = ErrorJson string | ExpenseJson expense

definition lastrowid :: "expense_row list \<Rightarrow> nat" where
  \<comment> \<open>\<^verbatim>\<open>AUTOINCREMENT\<close>: one more than the largest id; no row is ever deleted\<close>
  "lastrowid rows = Suc (fold max (map id_col rows) 0)"

definition select_by_id :: "expense_row list \<Rightarrow> nat \<Rightarrow> expense_row option" where
  \<comment> \<open>\<^verbatim>\<open>SELECT * FROM expenses WHERE id = ?\<close> with \<^verbatim>\<open>fetchone\<close>\<close>
  "select_by_id rows i = find (\<lambda>r. id_col r = i) rows"

definition key_truthy :: "string option \<Rightarrow> bool" where
  "key_truthy k = (k \<noteq> None \<and> k \<noteq> Some [])"

definition insert_expense ::
  "string option \<Rightarrow> string \<Rightarrow> int option \<Rightarrow> string \<Rightarrow> string \<Rightarrow> string \<Rightarrow> store
     \<Rightarrow> (exn + payload \<times> nat) \<times> store" where
  \<comment> \<open>the two \<^verbatim>\<open>INSERT\<close>s, the commit and the final \<^verbatim>\<open>SELECT\<close>. The column
      \<^verbatim>\<open>amount_paise\<close> is \<^verbatim>\<open>INTEGER NOT NULL\<close>: \<^verbatim>\<open>sqlite3\<close> raises
      \<^verbatim>\<open>OverflowError\<close> for an int outside 64 bits and \<^verbatim>\<open>IntegrityError\<close> for
      \<^verbatim>\<open>None\<close>.\<close>
  "insert_expense key now amount_paise' category' description' date' s =
     (case amount_paise' of
        None \<Rightarrow> (Inl IntegrityError, s)
      | Some p \<Rightarrow>
          if p < - (2 ^ 63) \<or> 2 ^ 63 - 1 < p then (Inl OverflowError, s)
          else
            let i = lastrowid (expenses s);
                row = \<lparr>id_col = i, amount_paise = p, category_col = category',
                       description_col = description', date_col = date',
                       created_at_col = now\<rparr>;
                keys = (if key_truthy key
                        then filter (\<lambda>e. fst e \<noteq> the key) (idempotency_keys s)
                               @ [(the key, i, now)]
                        else idempotency_keys s);
                s' = \<lparr>expenses = expenses s @ [row], idempotency_keys = keys\<rparr>
            in (case select_by_id (expenses s') i of
                  None \<Rightarrow> (Inl TypeError, s')
                | Some r \<Rightarrow> (Inr (ExpenseJson (row_to_expense r), 201), s')))"

definition lookup_existing :: "string option \<Rightarrow> store \<Rightarrow> expense_row option" where
  \<comment> \<open>the row that the key maps to, when the key is truthy, is mapped, and the row exists\<close>
  "lookup_existing key s =
     (if key_truthy key then
        (case map_of (idempotency_keys s) (the key) of
           None \<Rightarrow> None
         | Some (i, t) \<Rightarrow> select_by_id (expenses s) i)
      else None)"

definition validate ::
  "request \<Rightarrow> (exn + payload \<times> nat) + (int option \<times> string \<times> string \<times> string)" where
  \<comment> \<open>\<^verbatim>\<open>create_expense\<close> up to the last validation: \<^term>\<open>Inl\<close> is the early answer (a
      400, or an exception), \<^term>\<open>Inr\<close> the amount, category, description and date of a
      request that passed\<close>
  "validate req =
     (let data = json req
      in if \<not> truthy data then Inl (Inr (ErrorJson ''Invalid JSON'', 400))
         else
           (case data of
              PDict kvs \<Rightarrow>
                (let amount_raw = dict_get kvs ''amount''
                 in case text_field (dict_get kvs ''category'') of
                      Inl x \<Rightarrow> Inl (Inl x)
                    | Inr category' \<Rightarrow>
                 (case text_field (dict_get kvs ''description'') of
                      Inl x \<Rightarrow> Inl (Inl x)
                    | Inr description' \<Rightarrow>
                 (case text_field (dict_get kvs ''date'') of
                      Inl x \<Rightarrow> Inl (Inl x)
                    | Inr date' \<Rightarrow>
                 (case parse_amount amount_raw of
                      Inl x \<Rightarrow> Inl (Inl x)
                    | Inr (amount_paise', amount_err) \<Rightarrow>
                        if amount_err \<noteq> None \<and> amount_err \<noteq> Some []
                        then Inl (Inr (ErrorJson (the amount_err), 400))
                        else if category' = []
                        then Inl (Inr (ErrorJson ''Category is required'', 400))
                        else if date' = [] then Inl (Inr (ErrorJson ''Date is required'', 400))
                        else
                          (case strptime date' of
                             Inl x \<Rightarrow>
                               if x = ValueError
                               then Inl (Inr (ErrorJson ''Date must be in YYYY-MM-DD format'', 400))
                               else Inl (Inl x)
                           | Inr ymd \<Rightarrow>
                               Inr (amount_paise', category', description', date'))))))
            | _ \<Rightarrow> Inl (Inl AttributeError)))"

definition create_expense ::
  "(string \<Rightarrow> string) \<Rightarrow> string \<Rightarrow> request \<Rightarrow> store \<Rightarrow> (exn + payload \<times> nat) \<times> store" where
  "create_expense sha256_hex now req s =
     (case validate req of
        Inl answer \<Rightarrow> (answer, s)
      | Inr (amount_paise', category', description', date') \<Rightarrow>
          let key = get_idempotency_key sha256_hex req
          in (case lookup_existing key s of
                Some row \<Rightarrow> (Inr (ExpenseJson (row_to_expense row), 201), s)
              | None \<Rightarrow>
                  insert_expense key now amount_paise' category' description' date' s))"

definition get_expenses :: "string option \<Rightarrow> string option \<Rightarrow> store \<Rightarrow> expense list" where
  \<comment> \<open>the query parameters \<^verbatim>\<open>category\<close> and \<^verbatim>\<open>sort\<close>, \<^term>\<open>None\<close> when absent.
      \<^verbatim>\<open>ORDER BY date, created_at\<close> compares the two texts in turn, code point by code
      point; SQLite leaves open the order of rows that agree on both, here the order of
      insertion (its reverse for \<^verbatim>\<open>DESC\<close>).\<close>
  "get_expenses category_arg sort_arg s =
     (let category' = strip (case category_arg of None \<Rightarrow> [] | Some c \<Rightarrow> c);
          sort' = strip (case sort_arg of None \<Rightarrow> [] | Some c \<Rightarrow> c);
          rows = (if category' \<noteq> [] then filter (\<lambda>r. category_col r = category') (expenses s)
                  else expenses s);
          ordered = (if sort' = ''date_asc''
                     then sort_key (\<lambda>r. (date_col r, created_at_col r)) rows
                     else rev (sort_key (\<lambda>r. (date_col r, created_at_col r)) rows))
      in map row_to_expense ordered)"

section \<open>Properties\<close>

subsection \<open>Evaluation on concrete inputs\<close>

lemmas decimal_eval =
  parse_amount_def parse_amount_try_def Decimal_def strip_def isspace_def isdigit_def
  digit_val_def nat_of_digits_def tolower_def ndigits.simps digits_of.simps str_int_def
  prec_def Emax_def Etiny_def Etop_def rhe_div_def rescale_def exponent_part_def exact_range_def
  number_part_def nan_literal_def lt_zero_def quantize_def fix_context_def times100_def
  int_of_decimal_def Let_def

lemmas handler_eval =
  create_expense_def validate_def dict_get_def text_field_def strptime_def match_month_def match_day_def
  days_in_month_def is_leap_def get_idempotency_key_def lookup_existing_def key_truthy_def
  insert_expense_def lastrowid_def select_by_id_def get_expenses_def

lemmas weak_congs =
  sum.case_cong_weak option.case_cong_weak decimal.case_cong_weak list.case_cong_weak
  pyval.case_cong_weak prod.case_cong_weak let_weak_cong

subsection \<open>The amount parser returns, and never a negative amount\<close>

lemma ndigits_pos: "0 < ndigits n"
  by (subst ndigits.simps) simp

lemma ndigits_times10: "0 < c \<Longrightarrow> ndigits (10 * c) = Suc (ndigits c)"
  by (subst ndigits.simps) simp

lemma ndigits_times100: "0 < c \<Longrightarrow> ndigits (c * 100) = Suc (Suc (ndigits c))"
proof -
  assume c: "0 < c"
  have "ndigits (c * 100) = Suc (ndigits (c * 10))"
    using c by (subst ndigits.simps) (simp add: mult.commute)
  also have "ndigits (c * 10) = Suc (ndigits c)"
    using c by (subst ndigits.simps) simp
  finally show ?thesis .
qed

lemma rhe_div_exact: "0 < d \<Longrightarrow> rhe_div (a * d) d = a"
  by (simp add: rhe_div_def)

lemma Decimal_Inl: "Decimal t = Inl x \<Longrightarrow> x = InvalidOperation"
  by (auto simp: Decimal_def Let_def split: prod.splits option.splits if_splits)

lemma amount_decimal_Inl: "amount_decimal v = Inl x \<Longrightarrow> x = InvalidOperation"
  by (cases v) (auto dest: Decimal_Inl)

lemma quantize_Inl: "quantize d = Inl x \<Longrightarrow> x = InvalidOperation"
  by (auto simp: quantize_def Let_def split: decimal.splits if_splits)

lemma quantize_Finite:
  "quantize (Finite sg c e) = Inr q \<Longrightarrow>
     \<exists>c'. q = Finite sg c' (- 2) \<and> ndigits c' \<le> 28 \<and> (c = 0 \<longrightarrow> c' = 0)"
  by (auto simp: quantize_def Let_def prec_def ndigits.simps [of 0] split: if_splits)

lemma times100_int:
  assumes "ndigits c \<le> 28"
  shows "\<exists>d. times100 (Finite sg c (- 2)) = Inr d
             \<and> int_of_decimal d = Inr (if sg then - int c else int c)"
proof (cases "c = 0")
  case True
  then show ?thesis
    by (simp add: times100_def fix_context_def Etiny_def Emax_def int_of_decimal_def)
next
  case False
  then have c: "0 < c" by simp
  have nd: "ndigits (c * 100) = Suc (Suc (ndigits c))" by (rule ndigits_times100 [OF c])
  consider "ndigits c \<le> 26" | "ndigits c = 27" | "ndigits c = 28"
    using assms by linarith
  then show ?thesis
  proof cases
    case 1
    then show ?thesis using c
      by (simp add: times100_def fix_context_def nd prec_def Etop_def Etiny_def
          int_of_decimal_def Let_def)
  next
    case 2
    have r: "rescale (c * 100) (- 2) (- 1) = c * 10"
      by (simp add: rescale_def nd 2 rhe_div_def)
    have n: "ndigits (c * 10) = 28"
      using c 2 by (subst ndigits.simps) simp
    show ?thesis using c
      by (simp add: times100_def fix_context_def nd 2 prec_def Etop_def Etiny_def
          int_of_decimal_def Let_def r n)
  next
    case 3
    have r: "rescale (c * 100) (- 2) 0 = c"
      by (simp add: rescale_def nd 3 rhe_div_def)
    show ?thesis using c
      by (simp add: times100_def fix_context_def nd 3 prec_def Etop_def Etiny_def
          int_of_decimal_def Let_def r)
  qed
qed

lemma parse_amount_try_cases:
  "(\<exists>p. parse_amount_try v = Inr (Some p, None) \<and> 0 \<le> p)
   \<or> parse_amount_try v = Inr (None, Some ''Amount must be non-negative'')
   \<or> parse_amount_try v = Inl InvalidOperation"
proof (cases "amount_decimal v")
  case (Inl x)
  then show ?thesis
    using amount_decimal_Inl [of v x] by (simp add: parse_amount_try_def)
next
  case (Inr dec)
  show ?thesis
  proof (cases dec)
    case (NaN sig)
    then show ?thesis using Inr by (simp add: parse_amount_try_def lt_zero_def)
  next
    case (Infinity sg)
    then show ?thesis using Inr
      by (simp add: parse_amount_try_def lt_zero_def quantize_def)
  next
    case (Finite sg c e)
    show ?thesis
    proof (cases "sg \<and> c \<noteq> 0")
      case True
      then show ?thesis using Inr Finite by (simp add: parse_amount_try_def lt_zero_def)
    next
      case False
      note nonneg = this
      show ?thesis
      proof (cases "quantize dec")
        case (Inl x)
        then have "x = InvalidOperation" by (rule quantize_Inl)
        then show ?thesis using Inr Finite nonneg Inl
          by (simp add: parse_amount_try_def lt_zero_def)
      next
        case q: (Inr q)
        from q Finite obtain c' where c': "q = Finite sg c' (- 2)" "ndigits c' \<le> 28"
          "c = 0 \<longrightarrow> c' = 0"
          using quantize_Finite [of sg c e q] by auto
        from times100_int [OF c'(2), of sg] obtain d where
          d: "times100 (Finite sg c' (- 2)) = Inr d"
             "int_of_decimal d = Inr (if sg then - int c' else int c')"
          by blast
        have "parse_amount_try v = Inr (Some (if sg then - int c' else int c'), None)"
          using Inr Finite nonneg q c'(1) d by (simp add: parse_amount_try_def lt_zero_def)
        moreover have "0 \<le> (if sg then - int c' else int c')"
          using nonneg c'(3) by auto
        ultimately show ?thesis by blast
      qed
    qed
  qed
qed

lemma parse_amount_cases:
  "(\<exists>p. parse_amount v = Inr (Some p, None) \<and> 0 \<le> p)
   \<or> parse_amount v = Inr (None, Some ''Amount is required'')
   \<or> parse_amount v = Inr (None, Some ''Amount must be non-negative'')
   \<or> parse_amount v = Inr (None, Some ''Amount must be a valid number'')"
  using parse_amount_try_cases [of v] by (auto simp: parse_amount_def)

text \<open>
  C9 (amended). The amount parser is total and safe: for every input value it returns
  either a non-negative integer with no error or no value with a non-empty error message;
  no exception leaves it and no negative amount is returned. Of the special values that
  survive decimal parsing, every NaN and the positive infinity are caught by the
  \<^verbatim>\<open>InvalidOperation\<close> handler (the NaN in the comparison, the infinity in
  \<^verbatim>\<open>quantize\<close>) and reported as an invalid number, whereas the negative infinity
  raises nothing: the sign check rejects it with the message for a negative amount.
\<close>

theorem parse_amount_total:
  "((\<exists>p. parse_amount v = Inr (Some p, None) \<and> 0 \<le> p)
      \<or> (\<exists>m. parse_amount v = Inr (None, Some m) \<and> m \<noteq> []))
   \<and> (amount_decimal v = Inr (NaN sig) \<longrightarrow>
        parse_amount_try v = Inl InvalidOperation
        \<and> parse_amount v = Inr (None, Some ''Amount must be a valid number''))
   \<and> (amount_decimal v = Inr (Infinity False) \<longrightarrow>
        parse_amount_try v = Inl InvalidOperation
        \<and> parse_amount v = Inr (None, Some ''Amount must be a valid number''))
   \<and> (amount_decimal v = Inr (Infinity True) \<longrightarrow>
        parse_amount_try v = Inr (None, Some ''Amount must be non-negative'')
        \<and> parse_amount v = Inr (None, Some ''Amount must be non-negative''))"
proof -
  have total: "(\<exists>p. parse_amount v = Inr (Some p, None) \<and> 0 \<le> p)
      \<or> (\<exists>m. parse_amount v = Inr (None, Some m) \<and> m \<noteq> [])"
    using parse_amount_cases [of v] by auto
  have not_none: "amount_decimal v = Inr d \<Longrightarrow> v \<noteq> PNone" for d
    by (auto simp: Decimal_def strip_def isspace_def tolower_def nan_literal_def
        number_part_def isdigit_def Let_def)
  show ?thesis
    using total not_none
    by (auto simp: parse_amount_def parse_amount_try_def lt_zero_def quantize_def)
qed

theorem parse_amount_total_witness:
  "amount_decimal (PStr ''NaN'') = Inr (NaN False)
   \<and> parse_amount (PStr ''NaN'') = Inr (None, Some ''Amount must be a valid number'')
   \<and> amount_decimal (PStr ''Infinity'') = Inr (Infinity False)
   \<and> parse_amount (PStr ''Infinity'') = Inr (None, Some ''Amount must be a valid number'')
   \<and> amount_decimal (PStr ''-Infinity'') = Inr (Infinity True)
   \<and> parse_amount (PStr ''-Infinity'') = Inr (None, Some ''Amount must be non-negative'')"
proof -
  have a: "amount_decimal (PStr ''NaN'') = Inr (NaN False)"
    by (simp add: decimal_eval cong: weak_congs)
  have b: "amount_decimal (PStr ''Infinity'') = Inr (Infinity False)"
    by (simp add: decimal_eval cong: weak_congs)
  have c: "amount_decimal (PStr ''-Infinity'') = Inr (Infinity True)"
    by (simp add: decimal_eval cong: weak_congs)
  show ?thesis
    using a b c parse_amount_total [of "PStr ''NaN''" False]
      parse_amount_total [of "PStr ''Infinity''"] parse_amount_total [of "PStr ''-Infinity''"]
    by simp
qed

theorem negative_infinity_skips_handler:
  "amount_decimal (PStr ''-Infinity'') = Inr (Infinity True)
   \<and> parse_amount_try (PStr ''-Infinity'') \<noteq> Inl InvalidOperation
   \<and> parse_amount (PStr ''-Infinity'') \<noteq> Inr (None, Some ''Amount must be a valid number'')"
  by (simp add: decimal_eval cong: weak_congs)

subsection \<open>The idempotency key of a request\<close>

text \<open>
  C3. The claim: the key is the trimmed \<^verbatim>\<open>Idempotency-Key\<close> header when the header is
  present and non-empty after trimming, else the digest of a non-empty body, and a header
  of white space only falls back to the digest. The code tests the header before it
  trims it: for a header of one space it returns the empty text, which
  \<^verbatim>\<open>create_expense\<close> takes for no key, so that two identical requests store two
  expenses.
\<close>

theorem whitespace_only_header_skips_idempotency:
  \<open>get_idempotency_key sha256_hex
     \<lparr>idempotency_key_header = Some '' '',
      body = ''{"amount": 10, "category": "Food", "date": "2025-02-18"}'',
      json = PDict [(''amount'', PInt 10), (''category'', PStr ''Food''),
                    (''date'', PStr ''2025-02-18'')]\<rparr> = Some []
   \<and> map id_col (expenses (snd (create_expense sha256_hex ''2025-02-18T10:00:01Z''
        \<lparr>idempotency_key_header = Some '' '',
         body = ''{"amount": 10, "category": "Food", "date": "2025-02-18"}'',
         json = PDict [(''amount'', PInt 10), (''category'', PStr ''Food''),
                       (''date'', PStr ''2025-02-18'')]\<rparr>
        (snd (create_expense sha256_hex ''2025-02-18T10:00:00Z''
          \<lparr>idempotency_key_header = Some '' '',
           body = ''{"amount": 10, "category": "Food", "date": "2025-02-18"}'',
           json = PDict [(''amount'', PInt 10), (''category'', PStr ''Food''),
                         (''date'', PStr ''2025-02-18'')]\<rparr>
          \<lparr>expenses = [], idempotency_keys = []\<rparr>))))) = [1, 2]\<close>
  by (simp add: handler_eval decimal_eval cong: weak_congs)

subsection \<open>Validation of the date\<close>

lemma strptime_examples:
  "strptime ''2025-2-8'' = Inr (2025, 2, 8)"
  "strptime ''2025-02- 8'' = Inr (2025, 2, 8)"
  "strptime ''2025-02-08'' = Inr (2025, 2, 8)"
  "strptime ''2024-02-29'' = Inr (2024, 2, 29)"
  "strptime ''2025-02-30'' = Inl ValueError"
  "strptime ''2025-13-01'' = Inl ValueError"
  "strptime ''0000-01-01'' = Inl ValueError"
  by (simp_all add: handler_eval decimal_eval cong: weak_congs)

text \<open>
  C4. The claim: a date that is not in the shape of four, two and two digits, such as
  \<^verbatim>\<open>2025-2-8\<close>, fails with the message of \<^verbatim>\<open>InvalidDateFormat\<close>. The pattern of
  \<^verbatim>\<open>%m\<close> and \<^verbatim>\<open>%d\<close> also takes one digit, so the request succeeds with status 201 and
  the text \<^verbatim>\<open>2025-2-8\<close> is stored as the date.
\<close>

theorem single_digit_date_is_accepted:
  \<open>create_expense sha256_hex ''2025-02-18T10:00:00Z''
        \<lparr>idempotency_key_header = Some ''k1'',
         body = ''{"amount": 10, "category": "Food", "date": "2025-2-8"}'',
         json = PDict [(''amount'', PInt 10), (''category'', PStr ''Food''),
                       (''date'', PStr ''2025-2-8'')]\<rparr>
        \<lparr>expenses = [], idempotency_keys = []\<rparr>
     = (Inr (ExpenseJson (row_to_expense
               \<lparr>id_col = 1, amount_paise = 1000, category_col = ''Food'',
                description_col = [], date_col = ''2025-2-8'',
                created_at_col = ''2025-02-18T10:00:00Z''\<rparr>), 201),
        \<lparr>expenses = [\<lparr>id_col = 1, amount_paise = 1000, category_col = ''Food'',
                      description_col = [], date_col = ''2025-2-8'',
                      created_at_col = ''2025-02-18T10:00:00Z''\<rparr>],
         idempotency_keys = [(''k1'', 1, ''2025-02-18T10:00:00Z'')]\<rparr>)\<close>
  by (simp add: handler_eval decimal_eval cong: weak_congs)

subsection \<open>Malformed bodies and the order of validation\<close>

lemma insert_expense_no_error_json:
  "fst (insert_expense k now a c d dt s) \<noteq> Inr (ErrorJson m, n)"
  by (auto simp: insert_expense_def Let_def split: option.splits)

lemma create_expense_truthy:
  assumes "truthy (json req)"
  shows "fst (create_expense sha256_hex now req s) \<noteq> Inr (ErrorJson ''Invalid JSON'', 400)"
proof (cases "json req")
  case (PDict kvs)
  from parse_amount_cases [of "dict_get kvs ''amount''"]
  show ?thesis
    using assms PDict insert_expense_no_error_json
    by (auto simp: create_expense_def validate_def Let_def split: sum.splits option.splits)
qed (use assms in \<open>simp_all add: create_expense_def validate_def\<close>)

text \<open>
  C6 (amended). \<^verbatim>\<open>create_expense\<close> answers 400 with \<^verbatim>\<open>Invalid JSON\<close> exactly when the
  decoded body is falsy: the body is absent or unparseable, or it parses to \<^verbatim>\<open>null\<close>,
  \<^verbatim>\<open>false\<close>, zero, an empty text, an empty array or the empty object. For every body
  that parses to a non-empty object with no amount (the key absent or \<^verbatim>\<open>null\<close>), and
  whose category, description and date are absent, falsy or text, it answers 400 with
  \<^verbatim>\<open>Amount is required\<close>. Nothing is written in either case.
\<close>

theorem invalid_json_for_falsy_body:
  "(\<not> truthy (json req) \<longrightarrow>
      create_expense sha256_hex now req s = (Inr (ErrorJson ''Invalid JSON'', 400), s))
   \<and> (truthy (json req) \<longrightarrow>
      fst (create_expense sha256_hex now req s) \<noteq> Inr (ErrorJson ''Invalid JSON'', 400))
   \<and> (json req = PDict kvs \<and> kvs \<noteq> [] \<and> dict_get kvs ''amount'' = PNone
        \<and> text_field (dict_get kvs ''category'') = Inr c
        \<and> text_field (dict_get kvs ''description'') = Inr d
        \<and> text_field (dict_get kvs ''date'') = Inr dt \<longrightarrow>
      create_expense sha256_hex now req s = (Inr (ErrorJson ''Amount is required'', 400), s))"
  using create_expense_truthy [of req sha256_hex now s]
  by (auto simp: create_expense_def validate_def parse_amount_def)

theorem invalid_json_for_falsy_body_witness:
  \<open>\<not> truthy (PDict [])
   \<and> create_expense id ''2025-02-18T10:00:00Z''
        \<lparr>idempotency_key_header = None, body = ''{}'', json = PDict []\<rparr>
        \<lparr>expenses = [], idempotency_keys = []\<rparr>
      = (Inr (ErrorJson ''Invalid JSON'', 400), \<lparr>expenses = [], idempotency_keys = []\<rparr>)
   \<and> truthy (PDict [(''category'', PStr ''Food'')])
   \<and> fst (create_expense id ''2025-02-18T10:00:00Z''
        \<lparr>idempotency_key_header = None, body = ''{"category": "Food"}'',
         json = PDict [(''category'', PStr ''Food'')]\<rparr>
        \<lparr>expenses = [], idempotency_keys = []\<rparr>) \<noteq> Inr (ErrorJson ''Invalid JSON'', 400)
   \<and> create_expense id ''2025-02-18T10:00:00Z''
        \<lparr>idempotency_key_header = None, body = ''{"category": "Food"}'',
         json = PDict [(''category'', PStr ''Food'')]\<rparr>
        \<lparr>expenses = [], idempotency_keys = []\<rparr>
      = (Inr (ErrorJson ''Amount is required'', 400), \<lparr>expenses = [], idempotency_keys = []\<rparr>)\<close>
proof -
  have f: "text_field (dict_get [(''category'', PStr ''Food'')] ''category'') = Inr ''Food''"
    "text_field (dict_get [(''category'', PStr ''Food'')] ''description'') = Inr []"
    "text_field (dict_get [(''category'', PStr ''Food'')] ''date'') = Inr []"
    "dict_get [(''category'', PStr ''Food'')] ''amount'' = PNone"
    by (simp_all add: dict_get_def text_field_def strip_def isspace_def)
  show ?thesis
    using f
      invalid_json_for_falsy_body [of
        "\<lparr>idempotency_key_header = None, body = ''{}'', json = PDict []\<rparr>"
        id "''2025-02-18T10:00:00Z''" "\<lparr>expenses = [], idempotency_keys = []\<rparr>"]
      invalid_json_for_falsy_body [of
        "\<lparr>idempotency_key_header = None, body = ''{\"category\": \"Food\"}'',
          json = PDict [(''category'', PStr ''Food'')]\<rparr>"
        id "''2025-02-18T10:00:00Z''" "\<lparr>expenses = [], idempotency_keys = []\<rparr>"
        "[(''category'', PStr ''Food'')]" "''Food''" "[]" "[]"]
    by simp
qed

theorem empty_object_is_invalid_json:
  \<open>create_expense id ''2025-02-18T10:00:00Z''
     \<lparr>idempotency_key_header = None, body = ''{}'', json = PDict []\<rparr>
     \<lparr>expenses = [], idempotency_keys = []\<rparr>
   = (Inr (ErrorJson ''Invalid JSON'', 400), \<lparr>expenses = [], idempotency_keys = []\<rparr>)
   \<and> create_expense id ''2025-02-18T10:00:00Z''
     \<lparr>idempotency_key_header = None, body = ''{}'', json = PDict []\<rparr>
     \<lparr>expenses = [], idempotency_keys = []\<rparr>
   \<noteq> (Inr (ErrorJson ''Amount is required'', 400), \<lparr>expenses = [], idempotency_keys = []\<rparr>)\<close>
  by (simp add: create_expense_def validate_def)

text \<open>
  C5 (amended). For every request whose body parses to a non-empty object whose category,
  description and date are each absent, falsy or text, validation runs in the order
  amount, category, date and the first failure wins: a failure of the amount parser
  answers 400 with the parser's message whatever the other fields are; else an empty
  category answers \<^verbatim>\<open>Category is required\<close>; else an empty date answers
  \<^verbatim>\<open>Date is required\<close>; else a date that \<^verbatim>\<open>strptime\<close> rejects answers
  \<^verbatim>\<open>Date must be in YYYY-MM-DD format\<close>. The database is left as it was.
\<close>

theorem validation_order:
  "json req = PDict kvs \<and> kvs \<noteq> []
   \<and> text_field (dict_get kvs ''category'') = Inr c
   \<and> text_field (dict_get kvs ''description'') = Inr d
   \<and> text_field (dict_get kvs ''date'') = Inr dt
   \<longrightarrow>
   (\<forall>m. parse_amount (dict_get kvs ''amount'') = Inr (None, Some m) \<longrightarrow>
      create_expense sha256_hex now req s = (Inr (ErrorJson m, 400), s))
   \<and> (\<forall>p. parse_amount (dict_get kvs ''amount'') = Inr (Some p, None) \<longrightarrow>
        (c = [] \<longrightarrow>
           create_expense sha256_hex now req s = (Inr (ErrorJson ''Category is required'', 400), s))
        \<and> (c \<noteq> [] \<and> dt = [] \<longrightarrow>
           create_expense sha256_hex now req s = (Inr (ErrorJson ''Date is required'', 400), s))
        \<and> (c \<noteq> [] \<and> dt \<noteq> [] \<and> strptime dt = Inl ValueError \<longrightarrow>
           create_expense sha256_hex now req s
             = (Inr (ErrorJson ''Date must be in YYYY-MM-DD format'', 400), s)))"
proof -
  have msg: "m \<noteq> []" if "parse_amount (dict_get kvs ''amount'') = Inr (None, Some m)" for m
    using parse_amount_cases [of "dict_get kvs ''amount''"] that by auto
  show ?thesis
    using msg by (auto simp: create_expense_def validate_def)
qed

theorem validation_order_witness:
  \<open>create_expense id ''2025-02-18T10:00:00Z''
     \<lparr>idempotency_key_header = None, body = ''{"amount": -50, "date": "2025-02-30"}'',
      json = PDict [(''amount'', PInt (- 50)), (''date'', PStr ''2025-02-30'')]\<rparr>
     \<lparr>expenses = [], idempotency_keys = []\<rparr>
   = (Inr (ErrorJson ''Amount must be non-negative'', 400), \<lparr>expenses = [], idempotency_keys = []\<rparr>)
   \<and> create_expense id ''2025-02-18T10:00:00Z''
     \<lparr>idempotency_key_header = None, body = ''{"amount": 10, "date": "2025-02-30"}'',
      json = PDict [(''amount'', PInt 10), (''date'', PStr ''2025-02-30'')]\<rparr>
     \<lparr>expenses = [], idempotency_keys = []\<rparr>
   = (Inr (ErrorJson ''Category is required'', 400), \<lparr>expenses = [], idempotency_keys = []\<rparr>)
   \<and> create_expense id ''2025-02-18T10:00:00Z''
     \<lparr>idempotency_key_header = None, body = ''{"amount": 10, "category": "Food"}'',
      json = PDict [(''amount'', PInt 10), (''category'', PStr ''Food'')]\<rparr>
     \<lparr>expenses = [], idempotency_keys = []\<rparr>
   = (Inr (ErrorJson ''Date is required'', 400), \<lparr>expenses = [], idempotency_keys = []\<rparr>)
   \<and> create_expense id ''2025-02-18T10:00:00Z''
     \<lparr>idempotency_key_header = None,
      body = ''{"amount": 10, "category": "Food", "date": "2025-02-30"}'',
      json = PDict [(''amount'', PInt 10), (''category'', PStr ''Food''),
                    (''date'', PStr ''2025-02-30'')]\<rparr>
     \<lparr>expenses = [], idempotency_keys = []\<rparr>
   = (Inr (ErrorJson ''Date must be in YYYY-MM-DD format'', 400),
      \<lparr>expenses = [], idempotency_keys = []\<rparr>)\<close>
proof -
  have p: "parse_amount (PInt (- 50)) = Inr (None, Some ''Amount must be non-negative'')"
    "parse_amount (PInt 10) = Inr (Some 1000, None)"
    by (simp_all add: decimal_eval cong: weak_congs)
  have t: "text_field PNone = Inr []" "text_field (PStr ''Food'') = Inr ''Food''"
    "text_field (PStr ''2025-02-30'') = Inr ''2025-02-30''"
    by (simp_all add: text_field_def strip_def isspace_def)
  have d: "strptime ''2025-02-30'' = Inl ValueError"
    by (simp add: handler_eval decimal_eval cong: weak_congs)
  show ?thesis
    using p t d
      validation_order [where sha256_hex = id and now = "''2025-02-18T10:00:00Z''"
        and s = "\<lparr>expenses = [], idempotency_keys = []\<rparr>"
        and req = "\<lparr>idempotency_key_header = None,
                   body = ''{\"amount\": -50, \"date\": \"2025-02-30\"}'',
                   json = PDict [(''amount'', PInt (- 50)), (''date'', PStr ''2025-02-30'')]\<rparr>"
        and kvs = "[(''amount'', PInt (- 50)), (''date'', PStr ''2025-02-30'')]"
        and c = "[]" and d = "[]" and dt = "''2025-02-30''"]
      validation_order [where sha256_hex = id and now = "''2025-02-18T10:00:00Z''"
        and s = "\<lparr>expenses = [], idempotency_keys = []\<rparr>"
        and req = "\<lparr>idempotency_key_header = None,
                   body = ''{\"amount\": 10, \"date\": \"2025-02-30\"}'',
                   json = PDict [(''amount'', PInt 10), (''date'', PStr ''2025-02-30'')]\<rparr>"
        and kvs = "[(''amount'', PInt 10), (''date'', PStr ''2025-02-30'')]"
        and c = "[]" and d = "[]" and dt = "''2025-02-30''"]
      validation_order [where sha256_hex = id and now = "''2025-02-18T10:00:00Z''"
        and s = "\<lparr>expenses = [], idempotency_keys = []\<rparr>"
        and req = "\<lparr>idempotency_key_header = None,
                   body = ''{\"amount\": 10, \"category\": \"Food\"}'',
                   json = PDict [(''amount'', PInt 10), (''category'', PStr ''Food'')]\<rparr>"
        and kvs = "[(''amount'', PInt 10), (''category'', PStr ''Food'')]"
        and c = "''Food''" and d = "[]" and dt = "[]"]
      validation_order [where sha256_hex = id and now = "''2025-02-18T10:00:00Z''"
        and s = "\<lparr>expenses = [], idempotency_keys = []\<rparr>"
        and req = "\<lparr>idempotency_key_header = None,
                   body = ''{\"amount\": 10, \"category\": \"Food\", \"date\": \"2025-02-30\"}'',
                   json = PDict [(''amount'', PInt 10), (''category'', PStr ''Food''),
                                 (''date'', PStr ''2025-02-30'')]\<rparr>"
        and kvs = "[(''amount'', PInt 10), (''category'', PStr ''Food''),
                    (''date'', PStr ''2025-02-30'')]"
        and c = "''Food''" and d = "[]" and dt = "''2025-02-30''"]
    by (simp add: dict_get_def)
qed

theorem non_text_category_raises:
  \<open>create_expense id ''2025-02-18T10:00:00Z''
     \<lparr>idempotency_key_header = None,
      body = ''{"amount": "abc", "category": 5, "date": "2025-02-18"}'',
      json = PDict [(''amount'', PStr ''abc''), (''category'', PInt 5),
                    (''date'', PStr ''2025-02-18'')]\<rparr>
     \<lparr>expenses = [], idempotency_keys = []\<rparr>
   = (Inl AttributeError, \<lparr>expenses = [], idempotency_keys = []\<rparr>)
   \<and> parse_amount (PStr ''abc'') = Inr (None, Some ''Amount must be a valid number'')\<close>
  by (simp add: handler_eval decimal_eval cong: weak_congs)

end
